theory Spec2Isabelle
  imports Complex_Main
begin

section \<open>The Vega renderer of packages/vega/src/index.ts\<close>

text \<open>
  The file registers a renderer for two MIME types, builds a widget per MIME type, and
  before handing a Vega-Lite specification to the embedder runs it through
  \<open>Private.updateVegaLiteDefaults\<close>. The specification is JSON data held by reference,
  so the embedding keeps an explicit store: a claim about the caller's object after the
  call is a claim about the store.
\<close>

subsection \<open>JSON values and the store\<close>

text \<open>
  A JavaScript value is a primitive or a reference into the store. A stored object is a
  plain object (its own properties, by name) or an array. Numbers are read as reals:
  the only arithmetic in the file is the constant \<open>400/1.5\<close>. The store is a list and
  an address is a position in it; an object literal appends its object, so an address is
  never reused. Property order is not kept: no operation of the file depends on it.
\<close>

type_synonym addr = nat

datatype val = JUndefined | JNull | JBool bool | JNum real | JStr string | JRef addr

datatype obj = Object "string \<rightharpoonup> val" | Array "val list"

type_synonym heap = "obj list"

datatype error = TypeError

definition lookup :: "heap \<Rightarrow> addr \<Rightarrow> obj option" where
  "lookup h a = (if a < length h then Some (h ! a) else None)"

definition new_object :: "heap \<Rightarrow> (string \<rightharpoonup> val) \<Rightarrow> heap \<times> val" where
  \<comment> \<open>An object literal, once its properties are known: a new object at a new address.\<close>
  "new_object h props = (h @ [Object props], JRef (length h))"

subsection \<open>Own properties, hasOwnProperty, property reads and spread\<close>

text \<open>
  The keys of an array and of a string are the decimal numerals of the positions.
\<close>

fun decimal :: "nat \<Rightarrow> string" where
  "decimal n =
     (if n < 10 then [char_of (48 + n)]
      else decimal (n div 10) @ [char_of (48 + n mod 10)])"

declare decimal.simps [simp del]

definition indexed :: "'a list \<Rightarrow> (string \<rightharpoonup> 'a)" where
  "indexed xs = map_of (zip (map decimal [0..<length xs]) xs)"

definition enumerable_own :: "heap \<Rightarrow> val \<Rightarrow> (string \<rightharpoonup> val)" where
  \<comment> \<open>The own enumerable properties of a value: what a spread copies. A number, a
      boolean, \<open>null\<close> and \<open>undefined\<close> have none; a string has its characters. An
      address outside the store does not occur in a JavaScript store and is read as an
      object without properties.\<close>
  "enumerable_own h v =
     (case v of
        JStr s \<Rightarrow> indexed (map (\<lambda>c. JStr [c]) s)
      | JRef a \<Rightarrow>
          (case lookup h a of
             Some (Object props) \<Rightarrow> props
           | Some (Array xs) \<Rightarrow> indexed xs
           | None \<Rightarrow> Map.empty)
      | _ \<Rightarrow> Map.empty)"

definition own_length :: "heap \<Rightarrow> val \<Rightarrow> nat option" where
  \<comment> \<open>Strings and arrays also own the non-enumerable property \<open>length\<close>.\<close>
  "own_length h v =
     (case v of
        JStr s \<Rightarrow> Some (length s)
      | JRef a \<Rightarrow> (case lookup h a of Some (Array xs) \<Rightarrow> Some (length xs) | _ \<Rightarrow> None)
      | _ \<Rightarrow> None)"

definition own_property :: "heap \<Rightarrow> val \<Rightarrow> string \<Rightarrow> val option" where
  "own_property h v k =
     (case own_length h v of
        Some n \<Rightarrow> if k = ''length'' then Some (JNum (real n)) else enumerable_own h v k
      | None \<Rightarrow> enumerable_own h v k)"

definition hasOwnProperty :: "heap \<Rightarrow> val \<Rightarrow> string \<Rightarrow> error + bool" where
  \<comment> \<open>The call \<open>v.hasOwnProperty(k)\<close>. Reading a property of \<open>null\<close> or \<open>undefined\<close>
      throws. The method is itself looked up on \<open>v\<close>: an own property of that name
      hides the inherited method, and as JSON data is never a function the call then
      throws. Otherwise the inherited method answers whether \<open>k\<close> is an own property.\<close>
  "hasOwnProperty h v k =
     (if v = JUndefined \<or> v = JNull then Inl TypeError
      else if own_property h v ''hasOwnProperty'' = None
        then Inr (case own_property h v k of Some x \<Rightarrow> True | None \<Rightarrow> False)
        else Inl TypeError)"

definition get_prop :: "heap \<Rightarrow> val \<Rightarrow> string \<Rightarrow> val" where
  \<comment> \<open>The read \<open>v.k\<close> where \<open>v.hasOwnProperty(k)\<close> has just answered: the source reads
      \<open>.config\<close> and \<open>.cell\<close> only in the branch where the test is true, so the own
      property is what the read returns. A missing property reads as \<open>undefined\<close>.\<close>
  "get_prop h v k = (case own_property h v k of Some x \<Rightarrow> x | None \<Rightarrow> JUndefined)"

definition spread :: "heap \<Rightarrow> (string \<rightharpoonup> val) \<Rightarrow> val \<Rightarrow> (string \<rightharpoonup> val)" where
  \<comment> \<open>\<open>...src\<close> inside an object literal whose properties so far are \<open>props\<close>: the own
      enumerable properties of \<open>src\<close> are added, replacing those of the same name.\<close>
  "spread h props src = props ++ enumerable_own h src"

subsection \<open>The module's constants\<close>

definition VEGA_COMMON_CLASS :: string where
  "VEGA_COMMON_CLASS = ''jp-RenderedVegaCommon''"

definition VEGA_CLASS :: string where
  "VEGA_CLASS = ''jp-RenderedVega''"

definition VEGALITE_CLASS :: string where
  "VEGALITE_CLASS = ''jp-RenderedVegaLite''"

definition VEGA_MIME_TYPE :: string where
  "VEGA_MIME_TYPE = ''application/vnd.vega.v2+json''"

definition VEGALITE_MIME_TYPE :: string where
  "VEGALITE_MIME_TYPE = ''application/vnd.vegalite.v1+json''"

text \<open>
  \<open>Private.defaultCellConfig\<close> is an object made once, when the module is loaded. The
  embedding puts it at address 0. \<open>module_store\<close> is the store right after loading;
  a later store in which the constant is as it was made is \<open>module_store @ objs\<close>,
  the objects made since following it.
\<close>

definition defaultCellConfig_props :: "string \<rightharpoonup> val" where
  "defaultCellConfig_props = [''width'' \<mapsto> JNum 400, ''height'' \<mapsto> JNum (400 / 1.5)]"

definition defaultCellConfig :: val where
  "defaultCellConfig = JRef 0"

definition module_store :: heap where
  "module_store = [Object defaultCellConfig_props]"

subsection \<open>Private.updateVegaLiteDefaults\<close>

text \<open>
  The three return statements, object literal by object literal, innermost first. In
  the two branches for a specification with a \<open>config\<close> key the spread of
  \<open>spec.config\<close> stands in the literal that holds the \<open>config\<close> key, not in the value
  of that key:
  \<^verbatim>\<open>{...{"config": {...{"cell": {...defaultCellConfig, ...spec.config.cell}}}, ...spec.config}, ...spec}\<close>
  The result is the store after the call and either the error thrown or the value
  returned.
\<close>

definition updateVegaLiteDefaults :: "heap \<Rightarrow> val \<Rightarrow> heap \<times> (error + val)" where
  "updateVegaLiteDefaults h spec =
     (case hasOwnProperty h spec ''config'' of
        Inl e \<Rightarrow> (h, Inl e)
      | Inr True \<Rightarrow>
          (let config = get_prop h spec ''config'' in
           case hasOwnProperty h config ''cell'' of
             Inl e \<Rightarrow> (h, Inl e)
           | Inr True \<Rightarrow>
               (let (h5, l5) = new_object h
                       (spread h (spread h Map.empty defaultCellConfig) (get_prop h config ''cell''));
                    (h4, l4) = new_object h5 [''cell'' \<mapsto> l5];
                    (h3, l3) = new_object h4 (spread h4 Map.empty l4);
                    (h2, l2) = new_object h3 (spread h3 [''config'' \<mapsto> l3] config);
                    (h1, l1) = new_object h2 (spread h2 (spread h2 Map.empty l2) spec)
                in (h1, Inr l1))
           | Inr False \<Rightarrow>
               (let (h5, l5) = new_object h (spread h Map.empty defaultCellConfig);
                    (h4, l4) = new_object h5 [''cell'' \<mapsto> l5];
                    (h3, l3) = new_object h4 (spread h4 Map.empty l4);
                    (h2, l2) = new_object h3 (spread h3 [''config'' \<mapsto> l3] config);
                    (h1, l1) = new_object h2 (spread h2 (spread h2 Map.empty l2) spec)
                in (h1, Inr l1)))
      | Inr False \<Rightarrow>
          (let (h3, l3) = new_object h [''cell'' \<mapsto> defaultCellConfig];
               (h2, l2) = new_object h3 [''config'' \<mapsto> l3];
               (h1, l1) = new_object h2 (spread h2 (spread h2 Map.empty l2) spec)
           in (h1, Inr l1)))"

subsection \<open>RenderedVega\<close>

record IRendererOptions =
  mimeType :: string

text \<open>
  Of the widget the embedding keeps the two private fields and the CSS classes the
  constructor adds. \<open>addClass\<close> is the class list's: a class already there is not
  added again.
\<close>

record RenderedVega =
  classes :: "string list"
  priv_mimeType :: string
  priv_mode :: string

definition addClass :: "string \<Rightarrow> RenderedVega \<Rightarrow> RenderedVega" where
  "addClass c this =
     (if c \<in> set (classes this) then this else this\<lparr>classes := classes this @ [c]\<rparr>)"

definition new_RenderedVega :: "IRendererOptions \<Rightarrow> RenderedVega" where
  "new_RenderedVega options =
     (let this = addClass VEGA_COMMON_CLASS
                   \<lparr>classes = [], priv_mimeType = mimeType options, priv_mode = []\<rparr>
      in if mimeType options = VEGA_MIME_TYPE
         then (addClass VEGA_CLASS this)\<lparr>priv_mode := ''vega''\<rparr>
         else (addClass VEGALITE_CLASS this)\<lparr>priv_mode := ''vega-lite''\<rparr>)"

text \<open>
  A MIME model is read only through \<open>model.data[k]\<close>; \<open>data model k\<close> is the value of
  that read, \<open>undefined\<close> for a key the bundle lacks.
\<close>

record IMimeModel =
  data :: "string \<Rightarrow> val"

record embedSpec =
  mode :: string
  spec :: val

text \<open>
  A promise is pending until it is settled, and keeps its first settlement.
\<close>

datatype promise = Pending | Resolved val | Rejected val

definition resolve :: "val \<Rightarrow> promise \<Rightarrow> promise" where
  "resolve v p = (case p of Pending \<Rightarrow> Resolved v | _ \<Rightarrow> p)"

definition reject :: "val \<Rightarrow> promise \<Rightarrow> promise" where
  "reject e p = (case p of Pending \<Rightarrow> Rejected e | _ \<Rightarrow> p)"

definition embed_callback :: "val \<Rightarrow> val \<Rightarrow> promise \<Rightarrow> promise" where
  \<comment> \<open>The callback given to \<open>embed\<close>: \<open>(error, result) => { resolve(undefined); }\<close>.\<close>
  "embed_callback error result p = resolve JUndefined p"

record rendering =
  request :: embedSpec
  completion :: promise

text \<open>
  \<open>embed\<close> is the external vega-embed, here \<open>vega_embed\<close>. It is given as the list
  of argument pairs \<open>(error, result)\<close> with which it invokes its callback for a
  request, in order: it reports through the callback. The executor of the promise calls
  \<open>embed\<close> and nothing else, and the callback is the only code that settles the
  promise. \<open>renderModel\<close> returns the store, and either the error thrown before a
  promise exists or the request handed to \<open>embed\<close> with the promise as the callbacks
  leave it.
\<close>

definition renderModel ::
  "(embedSpec \<Rightarrow> (val \<times> val) list) \<Rightarrow> heap \<Rightarrow> RenderedVega \<Rightarrow> IMimeModel
     \<Rightarrow> heap \<times> (error + rendering)" where
  "renderModel vega_embed h this model =
     (let payload = data model (priv_mimeType this);
          (h', merged) =
             (if priv_mode this = ''vega-lite'' then updateVegaLiteDefaults h payload
              else (h, Inr payload))
      in case merged of
           Inl e \<Rightarrow> (h', Inl e)
         | Inr d \<Rightarrow>
             (let embedSpec = \<lparr>mode = priv_mode this, spec = d\<rparr>
              in (h', Inr \<lparr>request = embedSpec,
                          completion = fold (\<lambda>(error, result). embed_callback error result)
                                            (vega_embed embedSpec) Pending\<rparr>)))"

subsection \<open>VegaRendererFactory\<close>

record VegaRendererFactory =
  mimeTypes :: "string list"

definition new_VegaRendererFactory :: VegaRendererFactory where
  "new_VegaRendererFactory = \<lparr>mimeTypes = [VEGA_MIME_TYPE, VEGALITE_MIME_TYPE]\<rparr>"

fun indexOf_from :: "int \<Rightarrow> string list \<Rightarrow> string \<Rightarrow> int" where
  "indexOf_from i [] x = - 1"
| "indexOf_from i (y # ys) x = (if y = x then i else indexOf_from (i + 1) ys x)"

definition indexOf :: "string list \<Rightarrow> string \<Rightarrow> int" where
  "indexOf xs x = indexOf_from 0 xs x"

definition canCreateRenderer :: "VegaRendererFactory \<Rightarrow> IRendererOptions \<Rightarrow> bool" where
  "canCreateRenderer this options = (indexOf (mimeTypes this) (mimeType options) \<noteq> - 1)"

definition createRenderer :: "VegaRendererFactory \<Rightarrow> IRendererOptions \<Rightarrow> RenderedVega" where
  "createRenderer this options = new_RenderedVega options"

definition wouldSanitize :: "VegaRendererFactory \<Rightarrow> IRendererOptions \<Rightarrow> bool" where
  "wouldSanitize this options = False"

definition rendererFactory :: VegaRendererFactory where
  "rendererFactory = new_VegaRendererFactory"

subsection \<open>Reading a result, and the stores of the worked inputs\<close>

fun read_path :: "heap \<Rightarrow> val \<Rightarrow> string list \<Rightarrow> val" where
  \<comment> \<open>\<open>v.k1.k2...\<close> read for inspection: a missing step reads as \<open>undefined\<close>.\<close>
  "read_path h v [] = v"
| "read_path h v (k # ks) = read_path h (get_prop h v k) ks"

text \<open>
  Each store below is the module's store followed by the objects of one JSON text; the
  specification is the last object.
\<close>

definition store_mark :: heap where
  \<comment> \<open>\<^verbatim>\<open>{"mark": "bar"}\<close> at address 1\<close>
  "store_mark = module_store @ [Object [''mark'' \<mapsto> JStr ''bar'']]"

definition store_shadowed :: heap where
  \<comment> \<open>\<^verbatim>\<open>{"hasOwnProperty": true}\<close> at address 1\<close>
  "store_shadowed = module_store @ [Object [''hasOwnProperty'' \<mapsto> JBool True]]"

definition store_empty_config :: heap where
  \<comment> \<open>\<^verbatim>\<open>{"config": {}}\<close> at address 2\<close>
  "store_empty_config = module_store @ [Object Map.empty, Object [''config'' \<mapsto> JRef 1]]"

definition store_cell_width :: heap where
  \<comment> \<open>\<^verbatim>\<open>{"config": {"cell": {"width": 999}}}\<close> at address 3\<close>
  "store_cell_width = module_store @
     [Object [''width'' \<mapsto> JNum 999],
      Object [''cell'' \<mapsto> JRef 1],
      Object [''config'' \<mapsto> JRef 2]]"

definition store_config_other :: heap where
  \<comment> \<open>\<^verbatim>\<open>{"config": {"other": "x"}}\<close> at address 2\<close>
  "store_config_other = module_store @
     [Object [''other'' \<mapsto> JStr ''x''],
      Object [''config'' \<mapsto> JRef 1]]"


definition store_null_config :: heap where
  \<comment> \<open>\<^verbatim>\<open>{"config": null}\<close> at address 1\<close>
  "store_null_config = module_store @ [Object [''config'' \<mapsto> JNull]]"

definition vegalite_model :: "val \<Rightarrow> IMimeModel" where
  \<comment> \<open>A model whose bundle holds \<open>v\<close> under the Vega-Lite MIME type and nothing else.\<close>
  "vegalite_model v = \<lparr>data = (\<lambda>k. if k = VEGALITE_MIME_TYPE then v else JUndefined)\<rparr>"

definition failing_embed :: "embedSpec \<Rightarrow> (val \<times> val) list" where
  \<comment> \<open>An embedder that calls back once, with an error and no result.\<close>
  "failing_embed r = [(JStr ''invalid specification'', JUndefined)]"

section \<open>Properties\<close>

subsection \<open>The store and own properties\<close>

lemmas js_defs = updateVegaLiteDefaults_def hasOwnProperty_def own_property_def own_length_def
  enumerable_own_def lookup_def get_prop_def new_object_def spread_def defaultCellConfig_def
  module_store_def defaultCellConfig_props_def Let_def eval_nat_numeral

lemma lookup_old: "a < length h \<Longrightarrow> lookup (h @ xs) a = lookup h a"
  by (simp add: lookup_def nth_append)

lemma lookup_Some_less: "lookup h a = Some ob \<Longrightarrow> a < length h"
  by (simp add: lookup_def split: if_splits)

lemma lookup_kept: "lookup h a = Some ob \<Longrightarrow> lookup (h @ xs) a = Some ob"
  using lookup_old [of a h xs] lookup_Some_less [of h a ob] by simp

lemma own_property_Object:
  "lookup h a = Some (Object m) \<Longrightarrow> own_property h (JRef a) k = m k"
  by (simp add: own_property_def own_length_def enumerable_own_def)

lemma enumerable_own_kept:
  "lookup h a = Some ob \<Longrightarrow> enumerable_own (h @ xs) (JRef a) = enumerable_own h (JRef a)"
  by (simp add: enumerable_own_def lookup_kept)

lemma own_length_kept:
  "lookup h a = Some ob \<Longrightarrow> own_length (h @ xs) (JRef a) = own_length h (JRef a)"
  by (simp add: own_length_def lookup_kept)

lemma own_property_kept:
  "lookup h a = Some ob \<Longrightarrow> own_property (h @ xs) (JRef a) k = own_property h (JRef a) k"
  by (simp add: own_property_def own_length_kept enumerable_own_kept split: option.splits)

lemma hasOwnProperty_Object:
  "lookup h a = Some (Object m) \<Longrightarrow> m ''hasOwnProperty'' = None \<Longrightarrow>
   hasOwnProperty h (JRef a) k = Inr (k \<in> dom m)"
  by (auto simp add: hasOwnProperty_def own_property_Object split: option.splits)

lemma hasOwnProperty_shadowed:
  "lookup h a = Some (Object m) \<Longrightarrow> m ''hasOwnProperty'' = Some f \<Longrightarrow>
   hasOwnProperty h (JRef a) k = Inl TypeError"
  by (simp add: hasOwnProperty_def own_property_Object)

lemma hasOwnProperty_returns:
  "v \<noteq> JNull \<Longrightarrow> v \<noteq> JUndefined \<Longrightarrow> own_property h v ''hasOwnProperty'' = None \<Longrightarrow>
   \<exists>b. hasOwnProperty h v k = Inr b"
  by (simp add: hasOwnProperty_def)

subsection \<open>The three branches of updateVegaLiteDefaults\<close>

lemma updateVegaLiteDefaults_extends:
  "\<exists>new. fst (updateVegaLiteDefaults h s) = h @ new"
  by (simp add: updateVegaLiteDefaults_def new_object_def Let_def
      split: sum.splits bool.splits)

lemma updateVegaLiteDefaults_fresh:
  "snd (updateVegaLiteDefaults h s) = Inr r \<Longrightarrow>
   \<exists>a. r = JRef a \<and> length h \<le> a \<and> Suc a = length (fst (updateVegaLiteDefaults h s))"
  by (auto simp add: updateVegaLiteDefaults_def new_object_def Let_def
      split: sum.splits bool.splits)

lemma updateVegaLiteDefaults_throws:
  "snd (updateVegaLiteDefaults h s) = Inl e \<Longrightarrow> fst (updateVegaLiteDefaults h s) = h"
  by (auto simp add: updateVegaLiteDefaults_def new_object_def Let_def
      split: sum.splits bool.splits)

text \<open>
  No \<open>config\<close> key: the result is the specification with \<open>config\<close> added, and the new
  \<open>config.cell\<close> is the module's constant itself, not a copy of it.
\<close>

lemma updateVegaLiteDefaults_no_config:
  assumes "lookup h a = Some (Object m)" and "m ''hasOwnProperty'' = None"
    and "m ''config'' = None"
  shows "updateVegaLiteDefaults h (JRef a) =
    (h @ [Object [''cell'' \<mapsto> defaultCellConfig],
          Object [''config'' \<mapsto> JRef (length h)],
          Object (m(''config'' \<mapsto> JRef (length h)))],
     Inr (JRef (length h + 2)))"
proof -
  have less: "a < length h" using assms(1) by (rule lookup_Some_less)
  have test: "hasOwnProperty h (JRef a) ''config'' = Inr False"
    using assms by (simp add: hasOwnProperty_Object domIff)
  have props: "[''config'' \<mapsto> JRef (length h)] ++ m = m(''config'' \<mapsto> JRef (length h))"
    using assms(3) by (auto simp add: fun_eq_iff map_add_def split: option.splits)
  show ?thesis
    using less assms(1) props
    by (simp add: updateVegaLiteDefaults_def test new_object_def spread_def
        enumerable_own_def lookup_def nth_append)
qed

text \<open>
  A \<open>config\<close> key: four objects are built and the fifth, the result, is the own
  enumerable properties of \<open>spec.config\<close> overridden by all of the specification's own.
  What was built for \<open>config\<close> is overridden by the specification's \<open>config\<close>.
\<close>

lemma enumerable_own_in_store:
  "\<forall>x. c = JRef x \<longrightarrow> x < length h \<Longrightarrow> enumerable_own (h @ xs) c = enumerable_own h c"
  by (cases c) (simp_all add: enumerable_own_def lookup_old)

lemma updateVegaLiteDefaults_config:
  assumes "lookup h a = Some (Object m)" and "m ''hasOwnProperty'' = None"
    and "m ''config'' = Some c" and "hasOwnProperty h c ''cell'' = Inr b"
    and "\<forall>x. c = JRef x \<longrightarrow> x < length h"
  shows "\<exists>new. length new = 4 \<and> updateVegaLiteDefaults h (JRef a) =
    (h @ new @ [Object (enumerable_own h c ++ m)], Inr (JRef (length h + 4)))"
proof -
  have less: "a < length h" using assms(1) by (rule lookup_Some_less)
  have test: "hasOwnProperty h (JRef a) ''config'' = Inr True"
    using assms by (simp add: hasOwnProperty_Object domIff)
  have config: "get_prop h (JRef a) ''config'' = c"
    using assms by (simp add: get_prop_def own_property_Object)
  have old: "\<And>xs. enumerable_own (h @ xs) (JRef a) = m"
    using assms(1) less by (simp add: enumerable_own_def lookup_old)
  define l5 where "l5 = Object (if b
      then spread h (spread h Map.empty defaultCellConfig) (get_prop h c ''cell'')
      else spread h Map.empty defaultCellConfig)"
  define l4 where "l4 = Object [''cell'' \<mapsto> JRef (length h)]"
  define l3 where "l3 = Object (spread (h @ [l5, l4]) Map.empty (JRef (length (h @ [l5]))))"
  define built where "built = [''config'' \<mapsto> JRef (length (h @ [l5, l4]))]"
  define l2 where "l2 = Object (spread (h @ [l5, l4, l3]) built c)"
  define new where "new = [l5, l4, l3, l2]"
  define hoisted where "hoisted = spread (h @ new) Map.empty (JRef (length (h @ [l5, l4, l3])))"
  have "updateVegaLiteDefaults h (JRef a) =
      (h @ new @ [Object (spread (h @ new) hoisted (JRef a))], Inr (JRef (length (h @ new))))"
    using assms(4)
    by (cases b)
      (simp_all add: updateVegaLiteDefaults_def test config new_object_def
        hoisted_def new_def l2_def built_def l3_def l4_def l5_def)
  moreover have "spread (h @ new) hoisted (JRef a) = hoisted ++ m"
    by (simp add: spread_def old)
  moreover have "hoisted = built ++ enumerable_own h c"
  proof -
    have "lookup (h @ new) (length (h @ [l5, l4, l3])) = Some l2"
      by (simp add: lookup_def new_def nth_append)
    then have "hoisted = spread (h @ [l5, l4, l3]) built c"
      by (simp add: hoisted_def spread_def enumerable_own_def l2_def)
    then show ?thesis
      by (simp add: spread_def enumerable_own_in_store [OF assms(5)])
  qed
  moreover have "(built ++ enumerable_own h c) ++ m = enumerable_own h c ++ m"
    using assms(3)
    by (auto simp add: fun_eq_iff map_add_def built_def split: option.splits)
  moreover have "length new = 4" by (simp add: new_def)
  ultimately show ?thesis by auto
qed

text \<open>
  A \<open>config\<close> that is \<open>null\<close>: the second test reads a property of \<open>null\<close>.
\<close>

lemma updateVegaLiteDefaults_null_config:
  "updateVegaLiteDefaults store_null_config (JRef 1) = (store_null_config, Inl TypeError)"
  by (simp add: store_null_config_def js_defs)

subsection \<open>The callback\<close>

lemma callbacks_settled:
  "fold (\<lambda>(error, result). embed_callback error result) calls (Resolved v) = Resolved v"
  by (induction calls) (auto simp add: embed_callback_def resolve_def)

lemma callbacks_resolve:
  "calls \<noteq> [] \<Longrightarrow>
   fold (\<lambda>(error, result). embed_callback error result) calls Pending = Resolved JUndefined"
  by (cases calls) (auto simp add: embed_callback_def resolve_def callbacks_settled)

lemma callbacks_never_reject:
  "fold (\<lambda>(error, result). embed_callback error result) calls Pending \<noteq> Rejected e"
  by (cases calls) (auto simp add: embed_callback_def resolve_def callbacks_settled)

lemma renderModel_completion:
  "snd (renderModel vega_embed h this model) = Inr r \<Longrightarrow>
   completion r =
     fold (\<lambda>(error, result). embed_callback error result) (vega_embed (request r)) Pending"
  by (auto simp add: renderModel_def Let_def split: prod.splits sum.splits if_splits)

section \<open>The claims\<close>

subsection \<open>The factory and the constructor\<close>

text \<open>
  C8. For every string \<open>m\<close>, \<open>canCreateRenderer\<close> answers true exactly when \<open>m\<close> is one
  of the two registered MIME types \<open>application/vnd.vega.v2+json\<close> and
  \<open>application/vnd.vegalite.v1+json\<close>; it answers false for every other string, the
  empty string and a string that differs only in case among them.
\<close>

theorem canCreateRenderer_exactly_registered:
  "canCreateRenderer rendererFactory \<lparr>mimeType = m\<rparr> =
     (m = ''application/vnd.vega.v2+json'' \<or> m = ''application/vnd.vegalite.v1+json'')
   \<and> canCreateRenderer rendererFactory \<lparr>mimeType = []\<rparr> = False
   \<and> canCreateRenderer rendererFactory \<lparr>mimeType = ''Application/Vnd.Vega.V2+JSON''\<rparr> = False"
  by (auto simp add: canCreateRenderer_def rendererFactory_def new_VegaRendererFactory_def
      indexOf_def VEGA_MIME_TYPE_def VEGALITE_MIME_TYPE_def)

text \<open>
  C9. For every MIME type other than the Vega one, recognised or not, the constructor
  sets the mode to \<open>vega-lite\<close>. The constructor has no failing path: it is a total
  function that returns the widget, with the MIME type stored as given.
\<close>

theorem new_RenderedVega_other_mime_type:
  "m \<noteq> VEGA_MIME_TYPE \<Longrightarrow>
   priv_mode (new_RenderedVega \<lparr>mimeType = m\<rparr>) = ''vega-lite''
   \<and> priv_mimeType (new_RenderedVega \<lparr>mimeType = m\<rparr>) = m
   \<and> classes (new_RenderedVega \<lparr>mimeType = m\<rparr>) = [VEGA_COMMON_CLASS, VEGALITE_CLASS]"
  by (simp add: new_RenderedVega_def addClass_def Let_def
      VEGA_COMMON_CLASS_def VEGALITE_CLASS_def)

theorem new_RenderedVega_other_mime_type_witness:
  "''text/x-unknown'' \<noteq> VEGA_MIME_TYPE
   \<and> priv_mode (new_RenderedVega \<lparr>mimeType = ''text/x-unknown''\<rparr>) = ''vega-lite''
   \<and> createRenderer rendererFactory \<lparr>mimeType = ''text/x-unknown''\<rparr> =
       \<lparr>classes = [''jp-RenderedVegaCommon'', ''jp-RenderedVegaLite''],
        priv_mimeType = ''text/x-unknown'', priv_mode = ''vega-lite''\<rparr>"
proof -
  have other: "''text/x-unknown'' \<noteq> VEGA_MIME_TYPE"
    by (simp add: VEGA_MIME_TYPE_def)
  show ?thesis
    using other new_RenderedVega_other_mime_type [OF other]
    by (simp add: createRenderer_def new_RenderedVega_def addClass_def Let_def
        VEGA_COMMON_CLASS_def VEGALITE_CLASS_def)
qed

subsection \<open>renderModel\<close>

text \<open>
  C6. A view constructed for the Vega MIME type is in mode \<open>vega\<close>, and \<open>renderModel\<close>
  hands the embedder the very value read from the model under that MIME type: the
  store is left as it was and no merge runs.
\<close>

theorem renderModel_vega_passes_payload:
  "fst (renderModel vega_embed h (new_RenderedVega \<lparr>mimeType = VEGA_MIME_TYPE\<rparr>) model) = h
   \<and> (\<exists>c. snd (renderModel vega_embed h (new_RenderedVega \<lparr>mimeType = VEGA_MIME_TYPE\<rparr>) model) =
         Inr \<lparr>request = \<lparr>mode = ''vega'', spec = data model VEGA_MIME_TYPE\<rparr>,
              completion = c\<rparr>)"
proof -
  let ?view = "new_RenderedVega \<lparr>mimeType = VEGA_MIME_TYPE\<rparr>"
  have view: "priv_mode ?view = ''vega''" "priv_mimeType ?view = VEGA_MIME_TYPE"
    by (simp_all add: new_RenderedVega_def addClass_def Let_def)
  show ?thesis
    by (simp add: renderModel_def view Let_def)
qed

text \<open>
  C7, counterexample. A Vega-Lite view and a model whose payload is
  \<^verbatim>\<open>{"config": null}\<close>, or a model with no payload under the view's MIME type: the
  merge throws at its first or second \<open>hasOwnProperty\<close> call, before the promise is
  made. \<open>renderModel\<close> returns no promise; the caller gets the TypeError.
\<close>

theorem renderModel_throws_counterexample:
  "renderModel failing_embed store_null_config
      (new_RenderedVega \<lparr>mimeType = VEGALITE_MIME_TYPE\<rparr>) (vegalite_model (JRef 1)) =
     (store_null_config, Inl TypeError)
   \<and> renderModel failing_embed module_store
      (new_RenderedVega \<lparr>mimeType = VEGALITE_MIME_TYPE\<rparr>) (vegalite_model JUndefined) =
     (module_store, Inl TypeError)"
proof -
  let ?view = "new_RenderedVega \<lparr>mimeType = VEGALITE_MIME_TYPE\<rparr>"
  have view: "priv_mode ?view = ''vega-lite''" "priv_mimeType ?view = VEGALITE_MIME_TYPE"
    by (simp_all add: new_RenderedVega_def addClass_def Let_def
        VEGA_MIME_TYPE_def VEGALITE_MIME_TYPE_def)
  have null_config: "updateVegaLiteDefaults store_null_config (JRef (Suc 0)) =
      (store_null_config, Inl TypeError)"
    using updateVegaLiteDefaults_null_config by simp
  have no_payload: "updateVegaLiteDefaults module_store JUndefined = (module_store, Inl TypeError)"
    by (simp add: updateVegaLiteDefaults_def hasOwnProperty_def)
  show ?thesis
    by (simp add: renderModel_def view vegalite_model_def null_config no_payload Let_def)
qed

text \<open>
  C7, amended. For every model whose payload the merge takes without throwing (in the
  Vega mode no merge runs, so every model), \<open>renderModel\<close> hands a request to the
  embedder and returns a promise. That promise is never rejected, whatever the embedder
  passes to the callback; and once the embedder has called back, with an error or
  without, it is resolved (with \<open>undefined\<close>).
\<close>

theorem renderModel_promise_resolves:
  assumes "priv_mode this = ''vega-lite'' \<longrightarrow>
      (\<exists>d. snd (updateVegaLiteDefaults h (data model (priv_mimeType this))) = Inr d)"
  shows "\<exists>r. snd (renderModel vega_embed h this model) = Inr r
     \<and> (\<forall>e. completion r \<noteq> Rejected e)
     \<and> (vega_embed (request r) \<noteq> [] \<longrightarrow> completion r = Resolved JUndefined)"
proof -
  have "\<exists>r. snd (renderModel vega_embed h this model) = Inr r"
    using assms
    by (auto simp add: renderModel_def Let_def split: prod.splits sum.splits)
  then obtain r where run: "snd (renderModel vega_embed h this model) = Inr r" ..
  have "(\<forall>e. completion r \<noteq> Rejected e)
     \<and> (vega_embed (request r) \<noteq> [] \<longrightarrow> completion r = Resolved JUndefined)"
    by (simp add: renderModel_completion [OF run] callbacks_never_reject callbacks_resolve)
  with run show ?thesis by blast
qed

theorem renderModel_promise_resolves_witness:
  "snd (updateVegaLiteDefaults store_mark (JRef 1)) = Inr (JRef 4)
   \<and> failing_embed \<lparr>mode = ''vega-lite'', spec = JRef 4\<rparr> \<noteq> []
   \<and> snd (renderModel failing_embed store_mark
          (new_RenderedVega \<lparr>mimeType = VEGALITE_MIME_TYPE\<rparr>) (vegalite_model (JRef 1))) =
       Inr \<lparr>request = \<lparr>mode = ''vega-lite'', spec = JRef 4\<rparr>,
            completion = Resolved JUndefined\<rparr>"
proof -
  let ?view = "new_RenderedVega \<lparr>mimeType = VEGALITE_MIME_TYPE\<rparr>"
  let ?model = "vegalite_model (JRef 1)"
  have view: "priv_mode ?view = ''vega-lite''" "priv_mimeType ?view = VEGALITE_MIME_TYPE"
    by (simp_all add: new_RenderedVega_def addClass_def Let_def
        VEGA_MIME_TYPE_def VEGALITE_MIME_TYPE_def)
  have payload: "data ?model VEGALITE_MIME_TYPE = JRef 1"
    by (simp add: vegalite_model_def)
  have merge: "updateVegaLiteDefaults store_mark (JRef 1) =
      (store_mark @ [Object [''cell'' \<mapsto> defaultCellConfig],
                     Object [''config'' \<mapsto> JRef (length store_mark)],
                     Object ([''mark'' \<mapsto> JStr ''bar''](''config'' \<mapsto> JRef (length store_mark)))],
       Inr (JRef (length store_mark + 2)))"
    by (rule updateVegaLiteDefaults_no_config)
       (simp_all add: store_mark_def module_store_def lookup_def)
  have len: "length store_mark = 2"
    by (simp add: store_mark_def module_store_def)
  have merged: "snd (updateVegaLiteDefaults store_mark (JRef 1)) = Inr (JRef 4)"
    using merge by (simp add: len)
  have calls: "failing_embed \<lparr>mode = ''vega-lite'', spec = JRef 4\<rparr> \<noteq> []"
    by (simp add: failing_embed_def)
  have accepted: "priv_mode ?view = ''vega-lite'' \<longrightarrow>
      (\<exists>d. snd (updateVegaLiteDefaults store_mark (data ?model (priv_mimeType ?view))) = Inr d)"
    using merged payload by (simp add: view)
  have request: "\<And>r. snd (renderModel failing_embed store_mark ?view ?model) = Inr r \<Longrightarrow>
      request r = \<lparr>mode = ''vega-lite'', spec = JRef 4\<rparr>"
    using merge payload by (auto simp add: renderModel_def view len Let_def)
  from renderModel_promise_resolves [OF accepted, of failing_embed]
  obtain r where run: "snd (renderModel failing_embed store_mark ?view ?model) = Inr r"
    and resolved: "failing_embed (request r) \<noteq> [] \<longrightarrow> completion r = Resolved JUndefined"
    by blast
  from request [OF run] resolved calls
  have "r = \<lparr>request = \<lparr>mode = ''vega-lite'', spec = JRef 4\<rparr>,
             completion = Resolved JUndefined\<rparr>"
    by (cases r) simp
  with run merged calls show ?thesis by simp
qed

subsection \<open>updateVegaLiteDefaults and the caller's object\<close>

text \<open>
  C5. The call changes no object of the store it is given: the store afterwards is the
  store before with new objects appended, so the input object and everything it refers
  to keep their keys and values (a \<open>config\<close> key stays as it was, an absent one stays
  absent). What the call returns is a reference to an object that did not exist before.
\<close>

theorem updateVegaLiteDefaults_leaves_input:
  "(\<exists>new. fst (updateVegaLiteDefaults h s) = h @ new)
   \<and> (\<forall>a ob. lookup h a = Some ob \<longrightarrow>
         lookup (fst (updateVegaLiteDefaults h s)) a = Some ob
         \<and> (\<forall>k. own_property (fst (updateVegaLiteDefaults h s)) (JRef a) k =
                 own_property h (JRef a) k))
   \<and> (\<forall>r. snd (updateVegaLiteDefaults h s) = Inr r \<longrightarrow>
         (\<exists>a. r = JRef a \<and> lookup h a = None
              \<and> lookup (fst (updateVegaLiteDefaults h s)) a \<noteq> None))"
proof -
  obtain new where ext: "fst (updateVegaLiteDefaults h s) = h @ new"
    using updateVegaLiteDefaults_extends by blast
  have kept: "\<forall>a ob. lookup h a = Some ob \<longrightarrow>
         lookup (fst (updateVegaLiteDefaults h s)) a = Some ob
         \<and> (\<forall>k. own_property (fst (updateVegaLiteDefaults h s)) (JRef a) k =
                 own_property h (JRef a) k)"
    by (simp add: ext lookup_kept own_property_kept)
  have fresh: "\<forall>r. snd (updateVegaLiteDefaults h s) = Inr r \<longrightarrow>
         (\<exists>a. r = JRef a \<and> lookup h a = None
              \<and> lookup (fst (updateVegaLiteDefaults h s)) a \<noteq> None)"
  proof (intro allI impI)
    fix r
    assume "snd (updateVegaLiteDefaults h s) = Inr r"
    then obtain a where a: "r = JRef a" "length h \<le> a"
        "Suc a = length (fst (updateVegaLiteDefaults h s))"
      using updateVegaLiteDefaults_fresh by blast
    from a(2) have "lookup h a = None" by (simp add: lookup_def)
    moreover from a(3) have "lookup (fst (updateVegaLiteDefaults h s)) a \<noteq> None"
      by (simp add: lookup_def)
    ultimately show "\<exists>a. r = JRef a \<and> lookup h a = None
              \<and> lookup (fst (updateVegaLiteDefaults h s)) a \<noteq> None"
      using a(1) by blast
  qed
  from ext kept fresh show ?thesis by blast
qed

theorem updateVegaLiteDefaults_leaves_input_witness:
  "lookup store_cell_width 3 = Some (Object [''config'' \<mapsto> JRef 2])
   \<and> lookup (fst (updateVegaLiteDefaults store_cell_width (JRef 3))) 3 =
       Some (Object [''config'' \<mapsto> JRef 2])
   \<and> snd (updateVegaLiteDefaults store_cell_width (JRef 3)) = Inr (JRef 8)
   \<and> lookup store_cell_width 8 = None"
proof -
  have before: "lookup store_cell_width 3 = Some (Object [''config'' \<mapsto> JRef 2])"
    by (simp add: store_cell_width_def module_store_def lookup_def)
  from updateVegaLiteDefaults_leaves_input [of store_cell_width "JRef 3"] before
  have after: "lookup (fst (updateVegaLiteDefaults store_cell_width (JRef 3))) 3 =
       Some (Object [''config'' \<mapsto> JRef 2])"
    by blast
  have returned: "snd (updateVegaLiteDefaults store_cell_width (JRef 3)) = Inr (JRef 8)"
    by (simp add: store_cell_width_def js_defs)
  have absent: "lookup store_cell_width 8 = None"
    by (simp add: store_cell_width_def module_store_def lookup_def)
  from before after returned absent show ?thesis by simp
qed

subsection \<open>A specification without a config key\<close>

text \<open>
  C4, counterexample. A specification with no \<open>config\<close> key but with an own property
  named \<open>hasOwnProperty\<close>: the test \<open>spec.hasOwnProperty('config')\<close> calls the
  property's value, \<open>true\<close>, and throws. Nothing is returned.
\<close>

theorem updateVegaLiteDefaults_shadowed_counterexample:
  "own_property store_shadowed (JRef 1) ''config'' = None
   \<and> updateVegaLiteDefaults store_shadowed (JRef 1) = (store_shadowed, Inl TypeError)"
  by (simp add: store_shadowed_def js_defs)

text \<open>
  C4, amended. For every specification object that has no \<open>config\<close> key and no own
  property named \<open>hasOwnProperty\<close>, the call returns a new object that is the
  specification extended with a \<open>config\<close> key: every original key keeps its value,
  \<open>config\<close> is a new object with the single key \<open>cell\<close>, and \<open>config.cell\<close> is the
  module's constant, \<open>{width: 400, height: 400/1.5}\<close>.
\<close>

theorem updateVegaLiteDefaults_without_config:
  assumes "lookup (module_store @ objs) a = Some (Object m)"
    and "m ''hasOwnProperty'' = None" and "m ''config'' = None"
  shows "\<exists>h' r c. updateVegaLiteDefaults (module_store @ objs) (JRef a) = (h', Inr (JRef r))
     \<and> lookup (module_store @ objs) r = None
     \<and> lookup h' r = Some (Object (m(''config'' \<mapsto> JRef c)))
     \<and> lookup h' c = Some (Object [''cell'' \<mapsto> defaultCellConfig])
     \<and> enumerable_own h' defaultCellConfig =
         [''width'' \<mapsto> JNum 400, ''height'' \<mapsto> JNum (400 / 1.5)]"
proof -
  let ?h = "module_store @ objs"
  let ?l3 = "Object [''cell'' \<mapsto> defaultCellConfig]"
  let ?l2 = "Object [''config'' \<mapsto> JRef (length ?h)]"
  let ?l1 = "Object (m(''config'' \<mapsto> JRef (length ?h)))"
  let ?h' = "?h @ [?l3, ?l2, ?l1]"
  have run: "updateVegaLiteDefaults ?h (JRef a) = (?h', Inr (JRef (length ?h + 2)))"
    using assms by (rule updateVegaLiteDefaults_no_config)
  have fresh: "lookup ?h (length ?h + 2) = None"
    by (simp add: lookup_def)
  have result: "lookup ?h' (length ?h + 2) = Some ?l1"
    by (simp add: lookup_def nth_append)
  have config: "lookup ?h' (length ?h) = Some ?l3"
    by (simp add: lookup_def)
  have "lookup ?h' 0 = Some (Object defaultCellConfig_props)"
    by (simp add: lookup_def module_store_def)
  then have cell: "enumerable_own ?h' defaultCellConfig =
      [''width'' \<mapsto> JNum 400, ''height'' \<mapsto> JNum (400 / 1.5)]"
    by (simp add: enumerable_own_def defaultCellConfig_def defaultCellConfig_props_def)
  from run fresh result config cell
  have "updateVegaLiteDefaults ?h (JRef a) = (?h', Inr (JRef (length ?h + 2)))
     \<and> lookup ?h (length ?h + 2) = None
     \<and> lookup ?h' (length ?h + 2) = Some (Object (m(''config'' \<mapsto> JRef (length ?h))))
     \<and> lookup ?h' (length ?h) = Some (Object [''cell'' \<mapsto> defaultCellConfig])
     \<and> enumerable_own ?h' defaultCellConfig =
         [''width'' \<mapsto> JNum 400, ''height'' \<mapsto> JNum (400 / 1.5)]"
    by (intro conjI)
  then show ?thesis
    by (intro exI)
qed

theorem updateVegaLiteDefaults_without_config_witness:
  "lookup store_mark 1 = Some (Object [''mark'' \<mapsto> JStr ''bar''])
   \<and> [''mark'' \<mapsto> JStr ''bar''] ''hasOwnProperty'' = None
   \<and> [''mark'' \<mapsto> JStr ''bar''] ''config'' = None
   \<and> (\<exists>h' r c. updateVegaLiteDefaults store_mark (JRef 1) = (h', Inr (JRef r))
        \<and> lookup store_mark r = None
        \<and> lookup h' r = Some (Object ([''mark'' \<mapsto> JStr ''bar''](''config'' \<mapsto> JRef c)))
        \<and> lookup h' c = Some (Object [''cell'' \<mapsto> defaultCellConfig])
        \<and> enumerable_own h' defaultCellConfig =
            [''width'' \<mapsto> JNum 400, ''height'' \<mapsto> JNum (400 / 1.5)])
   \<and> read_path (fst (updateVegaLiteDefaults store_mark (JRef 1))) (JRef 4)
        [''config'', ''cell'', ''height''] = JNum (400 / 1.5)
   \<and> read_path (fst (updateVegaLiteDefaults store_mark (JRef 1))) (JRef 4) [''mark''] =
        JStr ''bar''"
proof -
  have object: "lookup store_mark 1 = Some (Object [''mark'' \<mapsto> JStr ''bar''])"
    by (simp add: store_mark_def module_store_def lookup_def)
  then have stored: "lookup (module_store @ [Object [''mark'' \<mapsto> JStr ''bar'']]) 1 =
      Some (Object [''mark'' \<mapsto> JStr ''bar''])"
    by (simp add: store_mark_def)
  have plain: "[''mark'' \<mapsto> JStr ''bar''] ''hasOwnProperty'' = None" by simp
  have no_config: "[''mark'' \<mapsto> JStr ''bar''] ''config'' = None" by simp
  have merged: "\<exists>h' r c. updateVegaLiteDefaults store_mark (JRef 1) = (h', Inr (JRef r))
        \<and> lookup store_mark r = None
        \<and> lookup h' r = Some (Object ([''mark'' \<mapsto> JStr ''bar''](''config'' \<mapsto> JRef c)))
        \<and> lookup h' c = Some (Object [''cell'' \<mapsto> defaultCellConfig])
        \<and> enumerable_own h' defaultCellConfig =
            [''width'' \<mapsto> JNum 400, ''height'' \<mapsto> JNum (400 / 1.5)]"
    unfolding store_mark_def
    by (rule updateVegaLiteDefaults_without_config [OF stored plain no_config])
  have height: "read_path (fst (updateVegaLiteDefaults store_mark (JRef 1))) (JRef 4)
        [''config'', ''cell'', ''height''] = JNum (400 / 1.5)"
    by (simp add: store_mark_def js_defs)
  have mark: "read_path (fst (updateVegaLiteDefaults store_mark (JRef 1))) (JRef 4) [''mark''] =
        JStr ''bar''"
    by (simp add: store_mark_def js_defs)
  from object plain no_config merged height mark show ?thesis by (intro conjI)
qed

subsection \<open>A specification with a config key\<close>


subsection \<open>The defaults are not merged into an existing config\<close>

text \<open>
  C1, at \<^verbatim>\<open>{"config": {}}\<close>. The claim asks for a \<open>config.cell\<close> with \<open>width\<close> and
  \<open>height\<close> in every result. The returned object's \<open>config\<close> is the caller's empty
  object, which has no \<open>cell\<close>: reading \<open>config.cell\<close>, \<open>config.cell.width\<close> and
  \<open>config.cell.height\<close> gives \<open>undefined\<close>.
\<close>

theorem updateVegaLiteDefaults_empty_config:
  "snd (updateVegaLiteDefaults store_empty_config (JRef 2)) = Inr (JRef 7)
   \<and> read_path (fst (updateVegaLiteDefaults store_empty_config (JRef 2))) (JRef 7)
        [''config''] = JRef 1
   \<and> own_property (fst (updateVegaLiteDefaults store_empty_config (JRef 2))) (JRef 1)
        ''cell'' = None
   \<and> read_path (fst (updateVegaLiteDefaults store_empty_config (JRef 2))) (JRef 7)
        [''config'', ''cell'', ''width''] = JUndefined
   \<and> read_path (fst (updateVegaLiteDefaults store_empty_config (JRef 2))) (JRef 7)
        [''config'', ''cell'', ''height''] = JUndefined"
  by (simp add: store_empty_config_def js_defs)

text \<open>
  C2, at \<^verbatim>\<open>{"config": {"cell": {"width": 999}}}\<close>. The claim asks for
  \<open>config.cell.width = 999\<close> and \<open>config.cell.height = 400/1.5\<close>. The returned
  object's \<open>config.cell\<close> is the caller's own cell: \<open>width\<close> is 999 and \<open>height\<close> is
  absent. The merged cell \<open>{width: 999, height: 400/1.5}\<close> is built, at address 4, and
  is not reachable from the result.
\<close>

theorem updateVegaLiteDefaults_partial_cell:
  "snd (updateVegaLiteDefaults store_cell_width (JRef 3)) = Inr (JRef 8)
   \<and> read_path (fst (updateVegaLiteDefaults store_cell_width (JRef 3))) (JRef 8)
        [''config'', ''cell''] = JRef 1
   \<and> read_path (fst (updateVegaLiteDefaults store_cell_width (JRef 3))) (JRef 8)
        [''config'', ''cell'', ''width''] = JNum 999
   \<and> read_path (fst (updateVegaLiteDefaults store_cell_width (JRef 3))) (JRef 8)
        [''config'', ''cell'', ''height''] = JUndefined
   \<and> read_path (fst (updateVegaLiteDefaults store_cell_width (JRef 3))) (JRef 4)
        [''width''] = JNum 999
   \<and> read_path (fst (updateVegaLiteDefaults store_cell_width (JRef 3))) (JRef 4)
        [''height''] = JNum (400 / 1.5)"
  by (simp add: store_cell_width_def js_defs)

text \<open>
  C3, at \<^verbatim>\<open>{"config": {"other": "x"}}\<close>. The claim asks for \<open>config.cell\<close> equal to
  the default record beside \<open>config.other\<close>. The returned object's \<open>config\<close> is the
  caller's: \<open>config.other\<close> is \<open>"x"\<close> and \<open>config.cell\<close> is absent; the result also
  has a top-level key \<open>other\<close> that the specification lacks.
\<close>

theorem updateVegaLiteDefaults_config_without_cell:
  "snd (updateVegaLiteDefaults store_config_other (JRef 2)) = Inr (JRef 7)
   \<and> read_path (fst (updateVegaLiteDefaults store_config_other (JRef 2))) (JRef 7)
        [''config''] = JRef 1
   \<and> read_path (fst (updateVegaLiteDefaults store_config_other (JRef 2))) (JRef 7)
        [''config'', ''other''] = JStr ''x''
   \<and> read_path (fst (updateVegaLiteDefaults store_config_other (JRef 2))) (JRef 7)
        [''config'', ''cell''] = JUndefined
   \<and> own_property store_config_other (JRef 2) ''other'' = None
   \<and> read_path (fst (updateVegaLiteDefaults store_config_other (JRef 2))) (JRef 7)
        [''other''] = JStr ''x''"
  by (simp add: store_config_other_def js_defs)

end
